theory Spec2Isabelle
  imports Complex_Main
begin

section \<open>Numbers: the C++ \<open>double\<close>\<close>

text \<open>
  The ray tracer computes with C++ \<open>double\<close> values and uses the special value
  \<open>INFINITY\<close> as its "no intersection" sentinel.  A \<open>double\<close> is modelled as either a
  finite real number or one of the three special values of IEEE-754.  Arithmetic on finite
  values is exact real arithmetic (rounding, overflow and the sign of zero are not
  modelled); arithmetic on special values follows the IEEE-754 rules, so that division by
  zero, \<open>inf - inf\<close>, \<open>0 * inf\<close> and comparisons with \<open>NaN\<close> behave as they do in
  the program.  A zero divisor is treated as \<open>+0\<close>: the only divisors of this program
  that can vanish are \<open>sqrt (dot v v)\<close> and \<open>1 - c\<close>, and both produce \<open>+0\<close>.
  A theorem below that depends on the exactness of finite arithmetic says so in its
  text; the others rest on comparisons, the special-value rules, the structure of the
  code and, in their examples, computations on small exactly representable numbers.
\<close>

datatype double = Fin real | PInf | NInf | NaN

instantiation double :: "{zero, one, plus, uminus, minus, times, inverse, ord}"
begin

definition zero_double :: double where
  "zero_double = Fin 0"

definition one_double :: double where
  "one_double = Fin 1"

fun plus_double :: "double \<Rightarrow> double \<Rightarrow> double" where
  "plus_double (Fin a) (Fin b) = Fin (a + b)"
| "plus_double NaN _ = NaN"
| "plus_double _ NaN = NaN"
| "plus_double PInf NInf = NaN"
| "plus_double NInf PInf = NaN"
| "plus_double PInf _ = PInf"
| "plus_double _ PInf = PInf"
| "plus_double NInf _ = NInf"
| "plus_double _ NInf = NInf"

fun uminus_double :: "double \<Rightarrow> double" where
  "uminus_double (Fin a) = Fin (- a)"
| "uminus_double PInf = NInf"
| "uminus_double NInf = PInf"
| "uminus_double NaN = NaN"

definition minus_double :: "double \<Rightarrow> double \<Rightarrow> double" where
  "minus_double a b = a + (- b)"

fun times_double :: "double \<Rightarrow> double \<Rightarrow> double" where
  "times_double (Fin a) (Fin b) = Fin (a * b)"
| "times_double NaN _ = NaN"
| "times_double _ NaN = NaN"
| "times_double PInf (Fin b) = (if b = 0 then NaN else if 0 < b then PInf else NInf)"
| "times_double NInf (Fin b) = (if b = 0 then NaN else if 0 < b then NInf else PInf)"
| "times_double (Fin a) PInf = (if a = 0 then NaN else if 0 < a then PInf else NInf)"
| "times_double (Fin a) NInf = (if a = 0 then NaN else if 0 < a then NInf else PInf)"
| "times_double PInf PInf = PInf"
| "times_double PInf NInf = NInf"
| "times_double NInf PInf = NInf"
| "times_double NInf NInf = PInf"

fun divide_double :: "double \<Rightarrow> double \<Rightarrow> double" where
  "divide_double (Fin a) (Fin b) =
     (if b \<noteq> 0 then Fin (a / b)
      else if a = 0 then NaN else if 0 < a then PInf else NInf)"
| "divide_double NaN _ = NaN"
| "divide_double _ NaN = NaN"
| "divide_double (Fin a) PInf = Fin 0"
| "divide_double (Fin a) NInf = Fin 0"
| "divide_double PInf (Fin b) = (if 0 \<le> b then PInf else NInf)"
| "divide_double NInf (Fin b) = (if 0 \<le> b then NInf else PInf)"
| "divide_double PInf PInf = NaN"
| "divide_double PInf NInf = NaN"
| "divide_double NInf PInf = NaN"
| "divide_double NInf NInf = NaN"

definition inverse_double :: "double \<Rightarrow> double" where
  "inverse_double a = Fin 1 div a"

fun less_double :: "double \<Rightarrow> double \<Rightarrow> bool" where
  "less_double (Fin a) (Fin b) = (a < b)"
| "less_double NaN _ = False"
| "less_double _ NaN = False"
| "less_double PInf _ = False"
| "less_double _ NInf = False"
| "less_double NInf _ = True"
| "less_double _ PInf = True"

fun less_eq_double :: "double \<Rightarrow> double \<Rightarrow> bool" where
  "less_eq_double (Fin a) (Fin b) = (a \<le> b)"
| "less_eq_double NaN _ = False"
| "less_eq_double _ NaN = False"
| "less_eq_double NInf _ = True"
| "less_eq_double _ PInf = True"
| "less_eq_double PInf _ = False"
| "less_eq_double _ NInf = False"

instance ..

end

text \<open>\<open>std::sqrt\<close> on a \<open>double\<close>.\<close>

fun dsqrt :: "double \<Rightarrow> double" where
  "dsqrt (Fin a) = (if 0 \<le> a then Fin (sqrt a) else NaN)"
| "dsqrt PInf = PInf"
| "dsqrt NInf = NaN"
| "dsqrt NaN = NaN"


section \<open>Vectors: the GLM types \<open>dvec3\<close> and \<open>dvec2\<close>\<close>

text \<open>
  GLM is an external library; the operations the program calls are written out as GLM
  computes them: \<open>dot\<close> sums the component products from left to right, \<open>cross\<close> is
  the usual component formula, \<open>normalize v\<close> is \<open>v * inversesqrt (dot v v)\<close> with
  \<open>inversesqrt x = 1 / sqrt x\<close>, \<open>length v\<close> is \<open>sqrt (dot v v)\<close> and
  \<open>distance p0 p1\<close> is \<open>length (p1 - p0)\<close>.
\<close>

datatype dvec3 = dvec3 double double double

datatype dvec2 = dvec2 double double

instantiation dvec3 :: "{zero, plus, uminus, minus}"
begin

definition zero_dvec3 :: dvec3 where
  "zero_dvec3 = dvec3 0 0 0"

fun plus_dvec3 :: "dvec3 \<Rightarrow> dvec3 \<Rightarrow> dvec3" where
  "plus_dvec3 (dvec3 x1 y1 z1) (dvec3 x2 y2 z2) = dvec3 (x1 + x2) (y1 + y2) (z1 + z2)"

fun uminus_dvec3 :: "dvec3 \<Rightarrow> dvec3" where
  "uminus_dvec3 (dvec3 x1 y1 z1) = dvec3 (- x1) (- y1) (- z1)"

fun minus_dvec3 :: "dvec3 \<Rightarrow> dvec3 \<Rightarrow> dvec3" where
  "minus_dvec3 (dvec3 x1 y1 z1) (dvec3 x2 y2 z2) = dvec3 (x1 - x2) (y1 - y2) (z1 - z2)"

instance ..

end

text \<open>\<open>s * v\<close> (scalar times vector) and \<open>v * s\<close> (vector times scalar).\<close>

fun smul :: "double \<Rightarrow> dvec3 \<Rightarrow> dvec3" where
  "smul s (dvec3 x1 y1 z1) = dvec3 (s * x1) (s * y1) (s * z1)"

fun muls :: "dvec3 \<Rightarrow> double \<Rightarrow> dvec3" where
  "muls (dvec3 x1 y1 z1) s = dvec3 (x1 * s) (y1 * s) (z1 * s)"

fun dot :: "dvec3 \<Rightarrow> dvec3 \<Rightarrow> double" where
  "dot (dvec3 x1 y1 z1) (dvec3 x2 y2 z2) = x1 * x2 + y1 * y2 + z1 * z2"


definition inversesqrt :: "double \<Rightarrow> double" where
  "inversesqrt x = 1 / dsqrt x"

definition normalize :: "dvec3 \<Rightarrow> dvec3" where
  "normalize v = muls v (inversesqrt (dot v v))"

definition length_dvec3 :: "dvec3 \<Rightarrow> double" where
  "length_dvec3 v = dsqrt (dot v v)"

definition distance :: "dvec3 \<Rightarrow> dvec3 \<Rightarrow> double" where
  "distance p0 p1 = length_dvec3 (p1 - p0)"

text \<open>The C macro \<open>INFINITY\<close>, converted to \<open>double\<close>.\<close>

abbreviation INFINITY :: double where
  "INFINITY \<equiv> PInf"

text \<open>A vector all of whose components are finite numbers.\<close>

fun finite_double :: "double \<Rightarrow> bool" where
  "finite_double (Fin a) = True"
| "finite_double _ = False"

fun finite_dvec3 :: "dvec3 \<Rightarrow> bool" where
  "finite_dvec3 (dvec3 x1 y1 z1) = (finite_double x1 \<and> finite_double y1 \<and> finite_double z1)"

section \<open>Colours, rays and hit records\<close>

text \<open>
  Modelled from the spec: \<open>Defines.h\<close>, which declares the type \<open>color\<close> and the
  constants \<open>BLACK\<close> and \<open>WHITE\<close>, is not among the sources.  The spec asks of a colour
  component-wise addition and scalar multiplication, and of black that it is "no light
  contribution"; a colour is taken to be a vector of \<open>double\<close> channels and black the
  colour whose channels are all zero.
\<close>

type_synonym color = dvec3

definition BLACK :: color where
  "BLACK = dvec3 0 0 0"

definition WHITE :: color where
  "WHITE = dvec3 1 1 1"

record Ray =
  origin :: dvec3
  direct :: dvec3

text \<open>
  \<open>HitRecord.h\<close> and \<open>Material.h\<close> are not among the sources.  The fields of a
  \<open>HitRecord\<close> are the ones the program reads and writes (the field \<open>t\<close> is called
  \<open>hit_t\<close> here); the material is a type parameter \<open>'m\<close>, its accessor
  \<open>getEmisive\<close> a parameter of \<open>traceRay\<close>, and the value of a default-constructed
  \<open>HitRecord\<close> a parameter \<open>hr0\<close> of the functions that declare one.
\<close>

record 'm HitRecord =
  hit_t :: double
  interceptPoint :: dvec3
  surfaceNormal :: dvec3
  material :: 'm
  uv :: dvec2

section \<open>Plane.cpp\<close>

text \<open>
  A plane holds a point \<open>a\<close>, a normal \<open>n\<close> and the material inherited from its
  base class (fields \<open>plane_a\<close>, \<open>plane_n\<close>, \<open>plane_material\<close>).  The first
  constructor normalises the normal it is given.
\<close>

record 'm Plane =
  plane_a :: dvec3
  plane_n :: dvec3
  plane_material :: 'm

definition Plane :: "dvec3 \<Rightarrow> dvec3 \<Rightarrow> 'm \<Rightarrow> 'm Plane" where
  "Plane point normal mat =
     \<lparr>plane_a = point, plane_n = normalize normal, plane_material = mat\<rparr>"

definition Plane_findIntersect :: "'m HitRecord \<Rightarrow> 'm Plane \<Rightarrow> Ray \<Rightarrow> 'm HitRecord" where
  "Plane_findIntersect hr0 pl ray =
     (let denominator = dot (direct ray) (plane_n pl) in
      if denominator < 0 then
        let t = dot (plane_a pl - origin ray) (plane_n pl) / denominator in
        hr0\<lparr>surfaceNormal := plane_n pl,
            interceptPoint := origin ray + smul t (direct ray),
            hit_t := t,
            material := plane_material pl\<rparr>
      else hr0\<lparr>hit_t := INFINITY\<rparr>)"


section \<open>LightSource.h\<close>

text \<open>
  The four light structs.  Inheritance is record extension; a method of a base struct
  takes any extension of its record, so that \<open>SpotLight\<close> can call
  \<open>PositionalLight::getLocalIllumination\<close> on itself.
\<close>

record LightSource =
  ambientLightColor :: color
  diffuseLightColor :: color
  specularLightColor :: color
  enabled :: bool

record PositionalLight = LightSource +
  lightPosition :: dvec3

record DirectionalLight = LightSource +
  lightDirection :: dvec3

record SpotLight = PositionalLight +
  spotDirection :: dvec3
  cutOffCosineRadians :: double

subsection \<open>Constructors\<close>

definition LightSource :: "color \<Rightarrow> LightSource" where
  "LightSource lightColor =
     \<lparr>ambientLightColor = BLACK, diffuseLightColor = lightColor,
      specularLightColor = WHITE, enabled = True\<rparr>"

definition PositionalLight :: "dvec3 \<Rightarrow> color \<Rightarrow> PositionalLight" where
  "PositionalLight position lightColor =
     \<lparr>ambientLightColor = BLACK, diffuseLightColor = lightColor,
      specularLightColor = WHITE, enabled = True, lightPosition = position\<rparr>"

definition DirectionalLight :: "dvec3 \<Rightarrow> color \<Rightarrow> DirectionalLight" where
  "DirectionalLight direction lightColor =
     \<lparr>ambientLightColor = BLACK, diffuseLightColor = lightColor,
      specularLightColor = WHITE, enabled = True, lightDirection = normalize direction\<rparr>"

definition SpotLight :: "dvec3 \<Rightarrow> dvec3 \<Rightarrow> double \<Rightarrow> color \<Rightarrow> SpotLight" where
  "SpotLight position direction cutOffCosine colorOfLight =
     \<lparr>ambientLightColor = BLACK, diffuseLightColor = colorOfLight,
      specularLightColor = WHITE, enabled = True, lightPosition = position,
      spotDirection = normalize direction, cutOffCosineRadians = cutOffCosine\<rparr>"

subsection \<open>Methods of \<open>LightSource\<close>\<close>

definition LightSource_getLocalIllumination ::
  "'z LightSource_scheme \<Rightarrow> dvec3 \<Rightarrow> dvec3 \<Rightarrow> dvec3 \<Rightarrow> 'm \<Rightarrow> dvec2 \<Rightarrow> color" where
  "LightSource_getLocalIllumination l eyeVector position normal mat uv0 = BLACK"

definition LightSource_getLightVector :: "'z LightSource_scheme \<Rightarrow> dvec3 \<Rightarrow> dvec3" where
  "LightSource_getLightVector l position = dvec3 (Fin 0) (Fin 0) (Fin 0)"

definition LightSource_getLightDistance :: "'z LightSource_scheme \<Rightarrow> dvec3 \<Rightarrow> double" where
  "LightSource_getLightDistance l position = Fin 0"

subsection \<open>Methods of \<open>PositionalLight\<close>\<close>

definition PositionalLight_getLocalIllumination ::
  "'z PositionalLight_scheme \<Rightarrow> dvec3 \<Rightarrow> dvec3 \<Rightarrow> dvec3 \<Rightarrow> 'm \<Rightarrow> dvec2 \<Rightarrow> color" where
  "PositionalLight_getLocalIllumination l eyeVector position normal mat uv0 = BLACK"

definition PositionalLight_getLightVector :: "'z PositionalLight_scheme \<Rightarrow> dvec3 \<Rightarrow> dvec3" where
  "PositionalLight_getLightVector l position = normalize (lightPosition l - position)"

definition PositionalLight_getLightDistance :: "'z PositionalLight_scheme \<Rightarrow> dvec3 \<Rightarrow> double" where
  "PositionalLight_getLightDistance l position = distance (lightPosition l) position"

subsection \<open>Methods of \<open>DirectionalLight\<close>\<close>

definition DirectionalLight_getLocalIllumination ::
  "'z DirectionalLight_scheme \<Rightarrow> dvec3 \<Rightarrow> dvec3 \<Rightarrow> dvec3 \<Rightarrow> 'm \<Rightarrow> dvec2 \<Rightarrow> color" where
  "DirectionalLight_getLocalIllumination l eyeVector position normal mat uv0 = BLACK"

definition DirectionalLight_getLightVector :: "'z DirectionalLight_scheme \<Rightarrow> dvec3 \<Rightarrow> dvec3" where
  "DirectionalLight_getLightVector l position = lightDirection l"

definition DirectionalLight_getLightDistance :: "'z DirectionalLight_scheme \<Rightarrow> dvec3 \<Rightarrow> double" where
  "DirectionalLight_getLightDistance l position = INFINITY"

subsection \<open>Methods of \<open>SpotLight\<close>\<close>

text \<open>
  The fall-off factor is computed before the test, as in the source, and the test reads
  \<open>dot negLightVec spotDirection > cutOffCosineRadians\<close>.
\<close>

definition SpotLight_getLocalIllumination ::
  "'z SpotLight_scheme \<Rightarrow> dvec3 \<Rightarrow> dvec3 \<Rightarrow> dvec3 \<Rightarrow> 'm \<Rightarrow> dvec2 \<Rightarrow> color" where
  "SpotLight_getLocalIllumination l eyeVector position normal mat uv0 =
     (let negLightVec = - normalize (lightPosition l - position);
          fallOffFactor =
            1 - (1 - dot negLightVec (spotDirection l)) / (1 - cutOffCosineRadians l)
      in if dot negLightVec (spotDirection l) > cutOffCosineRadians l then
           smul fallOffFactor
             (PositionalLight_getLocalIllumination l eyeVector position normal mat uv0)
         else BLACK)"

subsection \<open>Virtual dispatch\<close>

text \<open>
  A \<open>LightSource*\<close> held by the ray tracer points to an object of one of the four
  structs; a call through it runs the most derived override.  \<open>SpotLight\<close> overrides
  only \<open>getLocalIllumination\<close> and inherits the other two methods from
  \<open>PositionalLight\<close>.
\<close>

datatype Light =
  Base LightSource
| Positional PositionalLight
| Directional DirectionalLight
| Spot SpotLight

fun getLocalIllumination ::
  "Light \<Rightarrow> dvec3 \<Rightarrow> dvec3 \<Rightarrow> dvec3 \<Rightarrow> 'm \<Rightarrow> dvec2 \<Rightarrow> color" where
  "getLocalIllumination (Base l) e p nrm mat uv0 =
     LightSource_getLocalIllumination l e p nrm mat uv0"
| "getLocalIllumination (Positional l) e p nrm mat uv0 =
     PositionalLight_getLocalIllumination l e p nrm mat uv0"
| "getLocalIllumination (Directional l) e p nrm mat uv0 =
     DirectionalLight_getLocalIllumination l e p nrm mat uv0"
| "getLocalIllumination (Spot l) e p nrm mat uv0 =
     SpotLight_getLocalIllumination l e p nrm mat uv0"

fun getLightVector :: "Light \<Rightarrow> dvec3 \<Rightarrow> dvec3" where
  "getLightVector (Base l) p = LightSource_getLightVector l p"
| "getLightVector (Positional l) p = PositionalLight_getLightVector l p"
| "getLightVector (Directional l) p = DirectionalLight_getLightVector l p"
| "getLightVector (Spot l) p = PositionalLight_getLightVector l p"

fun getLightDistance :: "Light \<Rightarrow> dvec3 \<Rightarrow> double" where
  "getLightDistance (Base l) p = LightSource_getLightDistance l p"
| "getLightDistance (Positional l) p = PositionalLight_getLightDistance l p"
| "getLightDistance (Directional l) p = DirectionalLight_getLightDistance l p"
| "getLightDistance (Spot l) p = PositionalLight_getLightDistance l p"

text \<open>Setting the \<open>enabled\<close> flag of a light, whatever its struct.\<close>

fun set_enabled :: "bool \<Rightarrow> Light \<Rightarrow> Light" where
  "set_enabled b (Base l) = Base (l\<lparr>enabled := b\<rparr>)"
| "set_enabled b (Positional l) = Positional (l\<lparr>enabled := b\<rparr>)"
| "set_enabled b (Directional l) = Directional (l\<lparr>enabled := b\<rparr>)"
| "set_enabled b (Spot l) = Spot (l\<lparr>enabled := b\<rparr>)"

section \<open>RayTracer.cpp\<close>

text \<open>
  The members of \<open>RayTracer\<close> that the camera frame, the closest-hit search and
  \<open>traceRay\<close> use (the basis vectors \<open>u\<close>, \<open>v\<close>, \<open>w\<close> are the fields \<open>cam_u\<close>,
  \<open>cam_v\<close>, \<open>cam_w\<close>).  A surface is represented by its virtual method
  \<open>findIntersect\<close>; the two collections are lists in iteration order.
\<close>

type_synonym 'm Surface = "Ray \<Rightarrow> 'm HitRecord"

record 'm RayTracer =
  defaultColor :: color
  recursionDepth :: int
  eye :: dvec3
  cam_u :: dvec3
  cam_v :: dvec3
  cam_w :: dvec3
  surfaces :: "'m Surface list"
  lights :: "Light list"


text \<open>One iteration of the loop over the surfaces: the comparison is a strict \<open><\<close>.\<close>

definition closer :: "Ray \<Rightarrow> 'm Surface \<Rightarrow> 'm HitRecord \<Rightarrow> 'm HitRecord" where
  "closer ray surface closestHit =
     (let temp = surface ray in
      if hit_t temp < hit_t closestHit then temp else closestHit)"

definition findClosestIntersection ::
  "'m HitRecord \<Rightarrow> 'm RayTracer \<Rightarrow> Ray \<Rightarrow> 'm HitRecord" where
  "findClosestIntersection hr0 rt ray =
     fold (closer ray) (surfaces rt) (hr0\<lparr>hit_t := INFINITY\<rparr>)"

definition traceRay ::
  "('m \<Rightarrow> color) \<Rightarrow> 'm HitRecord \<Rightarrow> 'm RayTracer \<Rightarrow> Ray \<Rightarrow> int \<Rightarrow> color" where
  "traceRay getEmisive hr0 rt ray recursionLevel =
     (let closesHit = findClosestIntersection hr0 rt ray in
      if hit_t closesHit < INFINITY then
        fold (\<lambda>light totalColor.
                totalColor + getLocalIllumination light (- direct ray)
                  (interceptPoint closesHit) (surfaceNormal closesHit)
                  (material closesHit) (uv closesHit))
          (lights rt) (getEmisive (material closesHit))
      else defaultColor rt)"

section \<open>Unit vectors and kinds of light\<close>



section \<open>A small scene\<close>

text \<open>
  Concrete values on which the theorems below are instantiated: the material is just its
  emissive colour, the floor is the plane \<open>z = 0\<close> facing up, the wall behind it is the
  plane \<open>z = -3\<close> facing up.
\<close>

definition example_hr0 :: "color HitRecord" where
  "example_hr0 =
     \<lparr>hit_t = Fin 0, interceptPoint = dvec3 (Fin 0) (Fin 0) (Fin 0),
      surfaceNormal = dvec3 (Fin 0) (Fin 0) (Fin 0), material = dvec3 (Fin 0) (Fin 0) (Fin 0),
      uv = dvec2 (Fin (1 / 2)) (Fin (1 / 2))\<rparr>"

definition red :: color where
  "red = dvec3 (Fin 1) (Fin 0) (Fin 0)"

definition green :: color where
  "green = dvec3 (Fin 0) (Fin 1) (Fin 0)"

definition gray :: color where
  "gray = dvec3 (Fin (1 / 2)) (Fin (1 / 2)) (Fin (1 / 2))"

definition example_floor :: "color Plane" where
  "example_floor =
     \<lparr>plane_a = dvec3 (Fin 0) (Fin 0) (Fin 0), plane_n = dvec3 (Fin 0) (Fin 0) (Fin 1),
      plane_material = red\<rparr>"

definition example_lower :: "color Plane" where
  "example_lower =
     \<lparr>plane_a = dvec3 (Fin 0) (Fin 0) (Fin (- 3)), plane_n = dvec3 (Fin 0) (Fin 0) (Fin 1),
      plane_material = green\<rparr>"

definition ray_down_from_above :: Ray where
  "ray_down_from_above =
     \<lparr>origin = dvec3 (Fin 0) (Fin 0) (Fin 2), direct = dvec3 (Fin 0) (Fin 0) (Fin (- 1))\<rparr>"

definition ray_down_from_below :: Ray where
  "ray_down_from_below =
     \<lparr>origin = dvec3 (Fin 0) (Fin 0) (Fin (- 1)), direct = dvec3 (Fin 0) (Fin 0) (Fin (- 1))\<rparr>"

definition ray_up :: Ray where
  "ray_up =
     \<lparr>origin = dvec3 (Fin 0) (Fin 0) (Fin 2), direct = dvec3 (Fin 0) (Fin 0) (Fin 1)\<rparr>"

definition example_floor_green :: "color Plane" where
  "example_floor_green = example_floor\<lparr>plane_material := green\<rparr>"

definition example_lights :: "Light list" where
  "example_lights =
     [Base (LightSource red),
      Positional (PositionalLight (dvec3 (Fin 0) (Fin 0) (Fin 5)) WHITE),
      Directional (DirectionalLight (dvec3 (Fin 0) (Fin 0) (Fin 1)) WHITE),
      Spot (SpotLight (dvec3 (Fin 0) (Fin 0) (Fin 5)) (dvec3 (Fin 0) (Fin 0) (Fin (- 1)))
              (Fin (1 / 2)) WHITE)]"

definition example_tracer :: "color RayTracer" where
  "example_tracer =
     \<lparr>defaultColor = gray, recursionDepth = 2,
      eye = dvec3 (Fin 0) (Fin 0) (Fin 2),
      cam_u = dvec3 (Fin 1) (Fin 0) (Fin 0),
      cam_v = dvec3 (Fin 0) (Fin 1) (Fin 0),
      cam_w = dvec3 (Fin 0) (Fin 0) (Fin 1),
      surfaces =
        [Plane_findIntersect example_hr0 example_lower,
         Plane_findIntersect example_hr0 example_floor,
         Plane_findIntersect example_hr0 example_floor_green],
      lights = example_lights\<rparr>"




text \<open>
  Inputs outside the finite numbers: a ray whose direction has a \<open>NaN\<close> coordinate, and
  a plane through a point with an infinite coordinate (what the difference
  \<open>a - origin\<close> becomes when it overflows).
\<close>

definition ray_NaN_direction :: Ray where
  "ray_NaN_direction =
     \<lparr>origin = dvec3 (Fin 0) (Fin 0) (Fin 2), direct = dvec3 (Fin 0) (Fin 0) NaN\<rparr>"

definition example_plane_at_infinity :: "color Plane" where
  "example_plane_at_infinity =
     \<lparr>plane_a = dvec3 (Fin 0) (Fin 0) NInf, plane_n = dvec3 (Fin 0) (Fin 0) (Fin 1),
      plane_material = red\<rparr>"



section \<open>Properties of the number model\<close>



text \<open>Negation commutes with the products and sums of a dot product.\<close>

lemma double_uminus_times: "(- a) * b = - (a * b)" for a b :: double
  by (cases a; cases b; simp)

lemma double_uminus_plus: "- (a + b) = (- a) + (- b)" for a b :: double
  by (cases a; cases b; simp)

lemma dot_uminus: "dot (- p) q = - dot p q"
  by (cases p; cases q) (simp add: double_uminus_times double_uminus_plus)

lemma double_uminus_negative: "a < 0 \<Longrightarrow> \<not> (- a) < 0" for a :: double
  by (cases a) (simp_all add: zero_double_def)

lemma double_nonneg_not_negative: "0 \<le> a \<Longrightarrow> \<not> a < 0" for a :: double
  by (cases a) (simp_all add: zero_double_def)

lemma double_less_NaN: "\<not> a < NaN"
  by (cases a) simp_all

lemma double_less_trans: "(a::double) < b \<Longrightarrow> b < c \<Longrightarrow> a < c"
  by (cases a; cases b; cases c) simp_all

lemma double_less_irrefl: "\<not> (a::double) < a"
  by (cases a) simp_all

lemma double_not_less_trans: "\<not> (b::double) < a \<Longrightarrow> c < a \<Longrightarrow> \<not> b < c"
  by (cases a; cases b; cases c) simp_all

lemma double_le_iff: "((a::double) \<le> b) = (a < b \<or> (a = b \<and> a \<noteq> NaN))"
  by (cases a; cases b) auto

lemma double_less_PInf: "(a < PInf) = (a \<noteq> NaN \<and> a \<noteq> PInf)"
  by (cases a) simp_all

lemma finite_dvec3_ex: "finite_dvec3 v \<Longrightarrow> \<exists>a b c. v = dvec3 (Fin a) (Fin b) (Fin c)"
proof (cases v)
  case (dvec3 p q r)
  assume "finite_dvec3 v"
  with dvec3 show ?thesis by (cases p; cases q; cases r) simp_all
qed






section \<open>Plane intersection\<close>

text \<open>
  C1 as stated (\<open>t = +infinity\<close> exactly when \<open>dot direction n >= 0\<close>) fails in both
  directions.  A ray whose direction has a \<open>NaN\<close> coordinate is given \<open>t = +infinity\<close>
  although \<open>dot direction n >= 0\<close> is false; and a ray that opposes the normal
  (\<open>dot direction n = -1\<close>) is given \<open>t = +infinity\<close> when \<open>a - origin\<close> is
  minus infinity, since \<open>-inf / -1 = +inf\<close>.
\<close>

theorem Plane_findIntersect_iff_counterexample:
  "hit_t (Plane_findIntersect example_hr0 example_floor ray_NaN_direction) = INFINITY
   \<and> \<not> 0 \<le> dot (direct ray_NaN_direction) (plane_n example_floor)
   \<and> dot (direct ray_down_from_above) (plane_n example_plane_at_infinity) = Fin (- 1)
   \<and> dot (direct ray_down_from_above) (plane_n example_plane_at_infinity) < 0
   \<and> hit_t (Plane_findIntersect example_hr0 example_plane_at_infinity ray_down_from_above)
       = INFINITY"
  by (simp add: Plane_findIntersect_def Let_def example_floor_def ray_NaN_direction_def
      example_plane_at_infinity_def ray_down_from_above_def zero_double_def minus_double_def)

text \<open>
  C1, amended.  For every plane and every ray, \<open>Plane::findIntersect\<close> returns the
  default record with \<open>t = +infinity\<close> whenever \<open>dot direction n < 0\<close> does not hold,
  in particular whenever \<open>dot direction n >= 0\<close> (the ray is parallel to the plane or
  approaches it from behind).  When \<open>dot direction n < 0\<close> it returns
  \<open>t = dot (a - origin) n / dot direction n\<close> as double arithmetic evaluates it (a
  value that can itself be \<open>+infinity\<close>), the normal \<open>n\<close> as surface normal,
  \<open>origin + t * direction\<close> as intercept point and the material of the plane; the ray
  with the opposite direction from the same origin is then not hit: the rule is
  one-sided.
\<close>

theorem Plane_findIntersect_branches:
  "(\<not> dot (direct ray) (plane_n pl) < 0 \<longrightarrow>
      Plane_findIntersect hr0 pl ray = hr0\<lparr>hit_t := INFINITY\<rparr>)
   \<and> (0 \<le> dot (direct ray) (plane_n pl) \<longrightarrow>
        hit_t (Plane_findIntersect hr0 pl ray) = INFINITY)
   \<and> (dot (direct ray) (plane_n pl) < 0 \<longrightarrow>
        hit_t (Plane_findIntersect hr0 pl ray)
          = dot (plane_a pl - origin ray) (plane_n pl) / dot (direct ray) (plane_n pl)
      \<and> surfaceNormal (Plane_findIntersect hr0 pl ray) = plane_n pl
      \<and> interceptPoint (Plane_findIntersect hr0 pl ray)
          = origin ray + smul (hit_t (Plane_findIntersect hr0 pl ray)) (direct ray)
      \<and> material (Plane_findIntersect hr0 pl ray) = plane_material pl
      \<and> hit_t (Plane_findIntersect hr0 pl (ray\<lparr>direct := - direct ray\<rparr>)) = INFINITY)"
proof (intro conjI impI)
  assume "0 \<le> dot (direct ray) (plane_n pl)"
  then have "\<not> dot (direct ray) (plane_n pl) < 0"
    by (rule double_nonneg_not_negative)
  then show "hit_t (Plane_findIntersect hr0 pl ray) = INFINITY"
    by (simp add: Plane_findIntersect_def Let_def)
next
  assume "dot (direct ray) (plane_n pl) < 0"
  then have "\<not> dot (- direct ray) (plane_n pl) < 0"
    unfolding dot_uminus by (rule double_uminus_negative)
  then show "hit_t (Plane_findIntersect hr0 pl (ray\<lparr>direct := - direct ray\<rparr>)) = INFINITY"
    by (simp add: Plane_findIntersect_def Let_def)
qed (simp_all add: Plane_findIntersect_def Let_def)

theorem Plane_findIntersect_branches_witness:
  "dot (direct ray_down_from_above) (plane_n example_floor) < 0
   \<and> hit_t (Plane_findIntersect example_hr0 example_floor ray_down_from_above) = Fin 2
   \<and> interceptPoint (Plane_findIntersect example_hr0 example_floor ray_down_from_above)
       = dvec3 (Fin 0) (Fin 0) (Fin 0)
   \<and> material (Plane_findIntersect example_hr0 example_floor ray_down_from_above) = red
   \<and> hit_t (Plane_findIntersect example_hr0 example_floor
              (ray_down_from_above\<lparr>direct := - direct ray_down_from_above\<rparr>)) = INFINITY
   \<and> 0 \<le> dot (direct ray_up) (plane_n example_floor)
   \<and> hit_t (Plane_findIntersect example_hr0 example_floor ray_up) = INFINITY"
proof -
  have neg: "dot (direct ray_down_from_above) (plane_n example_floor) < 0"
    by (simp add: ray_down_from_above_def example_floor_def zero_double_def)
  have pos: "0 \<le> dot (direct ray_up) (plane_n example_floor)"
    by (simp add: ray_up_def example_floor_def zero_double_def)
  have q: "dot (plane_a example_floor - origin ray_down_from_above) (plane_n example_floor)
             / dot (direct ray_down_from_above) (plane_n example_floor) = Fin 2"
    by (simp add: ray_down_from_above_def example_floor_def minus_double_def)
  have p: "origin ray_down_from_above + smul (Fin 2) (direct ray_down_from_above)
             = dvec3 (Fin 0) (Fin 0) (Fin 0)"
    by (simp add: ray_down_from_above_def)
  have m: "plane_material example_floor = red"
    by (simp add: example_floor_def)
  from Plane_findIntersect_branches [of ray_down_from_above example_floor example_hr0]
       Plane_findIntersect_branches [of ray_up example_floor example_hr0]
  show ?thesis
    using neg pos q p m by simp
qed

text \<open>
  C5.  Whenever \<open>Plane::findIntersect\<close> registers a hit at parameter \<open>t0\<close> (for a plane
  and a ray with finite coordinates), the hit point lies on the plane:
  \<open>dot (origin + t0 * direction - a) n = 0\<close>, in exact arithmetic.
\<close>

theorem Plane_hit_on_plane:
  assumes "finite_dvec3 (plane_a pl)" and "finite_dvec3 (plane_n pl)"
    and "finite_dvec3 (origin ray)" and "finite_dvec3 (direct ray)"
    and "hit_t (Plane_findIntersect hr0 pl ray) < INFINITY"
  shows "dot (origin ray + smul (hit_t (Plane_findIntersect hr0 pl ray)) (direct ray)
               - plane_a pl) (plane_n pl) = 0
       \<and> dot (interceptPoint (Plane_findIntersect hr0 pl ray) - plane_a pl) (plane_n pl) = 0"
proof -
  obtain a1 a2 a3 where a: "plane_a pl = dvec3 (Fin a1) (Fin a2) (Fin a3)"
    using assms(1) finite_dvec3_ex by blast
  obtain n1 n2 n3 where n: "plane_n pl = dvec3 (Fin n1) (Fin n2) (Fin n3)"
    using assms(2) finite_dvec3_ex by blast
  obtain o1 o2 o3 where o: "origin ray = dvec3 (Fin o1) (Fin o2) (Fin o3)"
    using assms(3) finite_dvec3_ex by blast
  obtain d1 d2 d3 where d: "direct ray = dvec3 (Fin d1) (Fin d2) (Fin d3)"
    using assms(4) finite_dvec3_ex by blast
  define k where "k = d1 * n1 + d2 * n2 + d3 * n3"
  have neg: "k < 0"
    using assms(5)
    by (simp add: Plane_findIntersect_def Let_def a n o d zero_double_def k_def
        split: if_splits)
  have lin: "(o1 + s * d1 - a1) * n1 + (o2 + s * d2 - a2) * n2 + (o3 + s * d3 - a3) * n3
             = s * k - ((a1 - o1) * n1 + (a2 - o2) * n2 + (a3 - o3) * n3)" for s
    unfolding k_def by (simp add: algebra_simps)
  have alg: "(o1 + q / k * d1 - a1) * n1 + (o2 + q / k * d2 - a2) * n2
           + (o3 + q / k * d3 - a3) * n3 = 0"
    if "q = (a1 - o1) * n1 + (a2 - o2) * n2 + (a3 - o3) * n3" for q
  proof -
    have "(o1 + q / k * d1 - a1) * n1 + (o2 + q / k * d2 - a2) * n2
           + (o3 + q / k * d3 - a3) * n3
          = q / k * k - ((a1 - o1) * n1 + (a2 - o2) * n2 + (a3 - o3) * n3)"
      by (rule lin)
    also have "\<dots> = 0"
      using neg that by simp
    finally show ?thesis .
  qed
  show ?thesis
    using neg alg
    by (simp add: Plane_findIntersect_def Let_def a n o d zero_double_def minus_double_def
        k_def)
qed

theorem Plane_hit_on_plane_witness:
  "finite_dvec3 (plane_a example_lower) \<and> finite_dvec3 (plane_n example_lower)
   \<and> finite_dvec3 (origin ray_down_from_above) \<and> finite_dvec3 (direct ray_down_from_above)
   \<and> hit_t (Plane_findIntersect example_hr0 example_lower ray_down_from_above) = Fin 5
   \<and> hit_t (Plane_findIntersect example_hr0 example_lower ray_down_from_above) < INFINITY
   \<and> dot (origin ray_down_from_above + smul (Fin 5) (direct ray_down_from_above)
            - plane_a example_lower) (plane_n example_lower) = 0"
proof -
  have f: "finite_dvec3 (plane_a example_lower)" "finite_dvec3 (plane_n example_lower)"
    by (simp_all add: example_lower_def)
  have d: "finite_dvec3 (origin ray_down_from_above)"
    "finite_dvec3 (direct ray_down_from_above)"
    by (simp_all add: ray_down_from_above_def)
  have t: "hit_t (Plane_findIntersect example_hr0 example_lower ray_down_from_above) = Fin 5"
    by (simp add: Plane_findIntersect_def example_lower_def ray_down_from_above_def
        zero_double_def minus_double_def)
  have h: "hit_t (Plane_findIntersect example_hr0 example_lower ray_down_from_above) < INFINITY"
    by (simp add: t)
  from Plane_hit_on_plane [OF f d h] show ?thesis
    using f d h t by simp
qed

section \<open>The ambient-only base light\<close>

text \<open>
  C9.  For every query point, the base \<open>LightSource\<close> returns the zero vector as light
  vector and \<open>0.0\<close> as light distance: not \<open>+infinity\<close>, and not the distance to any
  position.
\<close>

theorem base_light_vector_and_distance:
  "getLightVector (Base l) p = dvec3 (Fin 0) (Fin 0) (Fin 0)
   \<and> getLightDistance (Base l) p = Fin 0
   \<and> getLightDistance (Base l) p \<noteq> INFINITY
   \<and> getLightDistance (Base l) p = getLightDistance (Base l') p'"
  by (simp add: LightSource_getLightVector_def LightSource_getLightDistance_def)

section \<open>Closest-intersection search\<close>

lemma double_not_less_PInf: "\<not> a < PInf \<Longrightarrow> \<not> a < (b::double)"
  by (cases a; cases b) simp_all

text \<open>
  The invariant of the loop over the surfaces: either nothing below \<open>+infinity\<close> has been
  seen and the record is still the initial one, or the record is the result of the first
  surface among those whose \<open>t\<close> no other surface seen so far undercuts.
\<close>

lemma fold_closer_invariant:
  fixes ss :: "'m Surface list"
  shows "(fold (closer ray) ss (hr0\<lparr>hit_t := INFINITY\<rparr>) = hr0\<lparr>hit_t := INFINITY\<rparr>
            \<and> (\<forall>j<length ss. \<not> hit_t ((ss ! j) ray) < INFINITY))
       \<or> (\<exists>i<length ss.
            fold (closer ray) ss (hr0\<lparr>hit_t := INFINITY\<rparr>) = (ss ! i) ray
          \<and> hit_t ((ss ! i) ray) < INFINITY
          \<and> (\<forall>j<length ss. \<not> hit_t ((ss ! j) ray) < hit_t ((ss ! i) ray))
          \<and> (\<forall>j<i. hit_t ((ss ! j) ray) \<noteq> hit_t ((ss ! i) ray)))"
    (is "?none ss \<or> ?some ss")
proof (induction ss rule: rev_induct)
  case Nil
  show ?case by simp
next
  case (snoc x xs)
  let ?r0 = "fold (closer ray) xs (hr0\<lparr>hit_t := INFINITY\<rparr>)"
  have step: "fold (closer ray) (xs @ [x]) (hr0\<lparr>hit_t := INFINITY\<rparr>)
                = (if hit_t (x ray) < hit_t ?r0 then x ray else ?r0)"
    by (simp add: closer_def)
  have last: "(xs @ [x]) ! length xs = x" by simp
  have old: "(xs @ [x]) ! j = xs ! j" if "j < length xs" for j
    using that by (simp add: nth_append)
  from snoc.IH show ?case
  proof
    assume none: "?none xs"
    show ?thesis
    proof (cases "hit_t (x ray) < INFINITY")
      case True
      have "?some (xs @ [x])"
      proof (intro exI [of _ "length xs"] conjI allI impI)
        show "length xs < length (xs @ [x])" by simp
        show "fold (closer ray) (xs @ [x]) (hr0\<lparr>hit_t := INFINITY\<rparr>)
                = ((xs @ [x]) ! length xs) ray"
          unfolding step using True none by simp
        show "hit_t (((xs @ [x]) ! length xs) ray) < INFINITY"
          using True by simp
      next
        fix j assume "j < length (xs @ [x])"
        then consider "j < length xs" | "j = length xs" by fastforce
        then show "\<not> hit_t (((xs @ [x]) ! j) ray) < hit_t (((xs @ [x]) ! length xs) ray)"
        proof cases
          case 1
          then show ?thesis
            using none by (simp add: old double_not_less_PInf)
        next
          case 2
          then show ?thesis by (simp add: double_less_irrefl)
        qed
      next
        fix j assume "j < length xs"
        then show "hit_t (((xs @ [x]) ! j) ray) \<noteq> hit_t (((xs @ [x]) ! length xs) ray)"
          using none True by (auto simp: old)
      qed
      then show ?thesis ..
    next
      case False
      have "?none (xs @ [x])"
      proof (intro conjI allI impI)
        show "fold (closer ray) (xs @ [x]) (hr0\<lparr>hit_t := INFINITY\<rparr>)
                = hr0\<lparr>hit_t := INFINITY\<rparr>"
          unfolding step using False none by simp
      next
        fix j assume "j < length (xs @ [x])"
        then consider "j < length xs" | "j = length xs" by fastforce
        then show "\<not> hit_t (((xs @ [x]) ! j) ray) < INFINITY"
          using none False by cases (simp_all add: old)
      qed
      then show ?thesis ..
    qed
  next
    assume "?some xs"
    then obtain i where i: "i < length xs"
      and r0: "?r0 = (xs ! i) ray"
      and fin: "hit_t ((xs ! i) ray) < INFINITY"
      and low: "\<forall>j<length xs. \<not> hit_t ((xs ! j) ray) < hit_t ((xs ! i) ray)"
      and first: "\<forall>j<i. hit_t ((xs ! j) ray) \<noteq> hit_t ((xs ! i) ray)"
      by blast
    show ?thesis
    proof (cases "hit_t (x ray) < hit_t ((xs ! i) ray)")
      case True
      have "?some (xs @ [x])"
      proof (intro exI [of _ "length xs"] conjI allI impI)
        show "length xs < length (xs @ [x])" by simp
        show "fold (closer ray) (xs @ [x]) (hr0\<lparr>hit_t := INFINITY\<rparr>)
                = ((xs @ [x]) ! length xs) ray"
          unfolding step using True r0 by simp
        show "hit_t (((xs @ [x]) ! length xs) ray) < INFINITY"
          using True fin by (simp add: double_less_trans [OF True fin])
      next
        fix j assume "j < length (xs @ [x])"
        then consider "j < length xs" | "j = length xs" by fastforce
        then show "\<not> hit_t (((xs @ [x]) ! j) ray) < hit_t (((xs @ [x]) ! length xs) ray)"
        proof cases
          case 1
          with low have "\<not> hit_t ((xs ! j) ray) < hit_t ((xs ! i) ray)" by simp
          from double_not_less_trans [OF this True] 1 show ?thesis
            by (simp add: old)
        next
          case 2
          then show ?thesis by (simp add: double_less_irrefl)
        qed
      next
        fix j assume j: "j < length xs"
        with low have "\<not> hit_t ((xs ! j) ray) < hit_t ((xs ! i) ray)" by simp
        with True have "hit_t ((xs ! j) ray) \<noteq> hit_t (x ray)" by auto
        then show "hit_t (((xs @ [x]) ! j) ray) \<noteq> hit_t (((xs @ [x]) ! length xs) ray)"
          using j by (simp add: old)
      qed
      then show ?thesis ..
    next
      case False
      have "?some (xs @ [x])"
      proof (intro exI [of _ i] conjI allI impI)
        show "i < length (xs @ [x])" using i by simp
        show "fold (closer ray) (xs @ [x]) (hr0\<lparr>hit_t := INFINITY\<rparr>) = ((xs @ [x]) ! i) ray"
          unfolding step using False r0 i by (simp add: old)
        show "hit_t (((xs @ [x]) ! i) ray) < INFINITY"
          using fin i by (simp add: old)
      next
        fix j assume "j < length (xs @ [x])"
        then consider "j < length xs" | "j = length xs" by fastforce
        then show "\<not> hit_t (((xs @ [x]) ! j) ray) < hit_t (((xs @ [x]) ! i) ray)"
          using low False i by cases (simp_all add: old)
      next
        fix j assume "j < i"
        then show "hit_t (((xs @ [x]) ! j) ray) \<noteq> hit_t (((xs @ [x]) ! i) ray)"
          using first i by (simp add: old)
      qed
      then show ?thesis ..
    qed
  qed
qed

text \<open>The three planes of the example scene on its three rays.\<close>

lemma example_hits_down_from_above:
  "hit_t (Plane_findIntersect example_hr0 example_lower ray_down_from_above) = Fin 5"
  "hit_t (Plane_findIntersect example_hr0 example_floor ray_down_from_above) = Fin 2"
  "hit_t (Plane_findIntersect example_hr0 example_floor_green ray_down_from_above) = Fin 2"
  by (simp_all add: Plane_findIntersect_def example_lower_def example_floor_def
      example_floor_green_def ray_down_from_above_def zero_double_def minus_double_def)

lemma example_hits_down_from_below:
  "hit_t (Plane_findIntersect example_hr0 example_lower ray_down_from_below) = Fin 2"
  "hit_t (Plane_findIntersect example_hr0 example_floor ray_down_from_below) = Fin (- 1)"
  "hit_t (Plane_findIntersect example_hr0 example_floor_green ray_down_from_below) = Fin (- 1)"
  by (simp_all add: Plane_findIntersect_def example_lower_def example_floor_def
      example_floor_green_def ray_down_from_below_def zero_double_def minus_double_def)

lemma example_hits_up:
  "hit_t (Plane_findIntersect example_hr0 example_lower ray_up) = INFINITY"
  "hit_t (Plane_findIntersect example_hr0 example_floor ray_up) = INFINITY"
  "hit_t (Plane_findIntersect example_hr0 example_floor_green ray_up) = INFINITY"
  by (simp_all add: Plane_findIntersect_def example_lower_def example_floor_def
      example_floor_green_def ray_up_def zero_double_def)

lemma example_material_floor:
  "material (Plane_findIntersect example_hr0 example_floor ray_down_from_above) = red"
  "material (Plane_findIntersect example_hr0 example_floor ray_down_from_below) = red"
  by (simp_all add: Plane_findIntersect_def Let_def example_floor_def
      ray_down_from_above_def ray_down_from_below_def zero_double_def)

lemma example_closest_down_from_above:
  "findClosestIntersection example_hr0 example_tracer ray_down_from_above
     = Plane_findIntersect example_hr0 example_floor ray_down_from_above"
  by (simp add: findClosestIntersection_def example_tracer_def closer_def
      example_hits_down_from_above)

lemma example_closest_down_from_below:
  "findClosestIntersection example_hr0 example_tracer ray_down_from_below
     = Plane_findIntersect example_hr0 example_floor ray_down_from_below"
  by (simp add: findClosestIntersection_def example_tracer_def closer_def
      example_hits_down_from_below)


text \<open>
  C2.  \<open>findClosestIntersection\<close> over the list of surfaces: when no surface reports a
  \<open>t\<close> below \<open>+infinity\<close> the result is the initial record with \<open>t = +infinity\<close>;
  otherwise the result is the record of some surface \<open>i\<close> whose \<open>t\<close> is below
  \<open>+infinity\<close> and is the minimum of all reported values (no surface reports a smaller
  \<open>t\<close>, and every reported number is at least as large), and \<open>i\<close> is the first
  surface in iteration order that reports this \<open>t\<close>: on a tie the earlier surface wins.
\<close>

theorem findClosestIntersection_spec:
  "((\<forall>s\<in>set (surfaces rt). \<not> hit_t (s ray) < INFINITY) \<longrightarrow>
      findClosestIntersection hr0 rt ray = hr0\<lparr>hit_t := INFINITY\<rparr>
      \<and> hit_t (findClosestIntersection hr0 rt ray) = INFINITY)
   \<and> ((\<exists>s\<in>set (surfaces rt). hit_t (s ray) < INFINITY) \<longrightarrow>
      (\<exists>i<length (surfaces rt).
          findClosestIntersection hr0 rt ray = (surfaces rt ! i) ray
        \<and> hit_t (findClosestIntersection hr0 rt ray) < INFINITY
        \<and> (\<forall>j<length (surfaces rt).
              \<not> hit_t ((surfaces rt ! j) ray) < hit_t (findClosestIntersection hr0 rt ray))
        \<and> (\<forall>j<length (surfaces rt).
              hit_t ((surfaces rt ! j) ray) \<noteq> NaN \<longrightarrow>
              hit_t (findClosestIntersection hr0 rt ray) \<le> hit_t ((surfaces rt ! j) ray))
        \<and> (\<forall>j<i. hit_t ((surfaces rt ! j) ray)
                    \<noteq> hit_t (findClosestIntersection hr0 rt ray))))"
proof -
  let ?ss = "surfaces rt"
  let ?r = "findClosestIntersection hr0 rt ray"
  have r: "?r = fold (closer ray) ?ss (hr0\<lparr>hit_t := INFINITY\<rparr>)"
    by (simp add: findClosestIntersection_def)
  have le: "a \<le> b" if "\<not> b < a" "a < INFINITY" "b \<noteq> NaN" for a b :: double
    using that by (cases a; cases b) simp_all
  from fold_closer_invariant [of ray ?ss hr0]
  show ?thesis
  proof
    assume none: "fold (closer ray) ?ss (hr0\<lparr>hit_t := INFINITY\<rparr>) = hr0\<lparr>hit_t := INFINITY\<rparr>
            \<and> (\<forall>j<length ?ss. \<not> hit_t ((?ss ! j) ray) < INFINITY)"
    then have "\<forall>s\<in>set ?ss. \<not> hit_t (s ray) < INFINITY"
      by (auto simp: in_set_conv_nth)
    with none show ?thesis
      by (simp add: r)
  next
    assume "\<exists>i<length ?ss.
            fold (closer ray) ?ss (hr0\<lparr>hit_t := INFINITY\<rparr>) = (?ss ! i) ray
          \<and> hit_t ((?ss ! i) ray) < INFINITY
          \<and> (\<forall>j<length ?ss. \<not> hit_t ((?ss ! j) ray) < hit_t ((?ss ! i) ray))
          \<and> (\<forall>j<i. hit_t ((?ss ! j) ray) \<noteq> hit_t ((?ss ! i) ray))"
    then obtain i where i: "i < length ?ss"
      and eq: "?r = (?ss ! i) ray"
      and fin: "hit_t ((?ss ! i) ray) < INFINITY"
      and low: "\<forall>j<length ?ss. \<not> hit_t ((?ss ! j) ray) < hit_t ((?ss ! i) ray)"
      and first: "\<forall>j<i. hit_t ((?ss ! j) ray) \<noteq> hit_t ((?ss ! i) ray)"
      unfolding r by blast
    have some: "\<exists>s\<in>set ?ss. hit_t (s ray) < INFINITY"
      using i fin nth_mem by blast
    have "\<exists>i<length ?ss. ?r = (?ss ! i) ray
        \<and> hit_t ?r < INFINITY
        \<and> (\<forall>j<length ?ss. \<not> hit_t ((?ss ! j) ray) < hit_t ?r)
        \<and> (\<forall>j<length ?ss. hit_t ((?ss ! j) ray) \<noteq> NaN \<longrightarrow> hit_t ?r \<le> hit_t ((?ss ! j) ray))
        \<and> (\<forall>j<i. hit_t ((?ss ! j) ray) \<noteq> hit_t ?r)"
    proof (intro exI [of _ i] conjI allI impI)
      show "i < length ?ss" by (rule i)
      show "?r = (?ss ! i) ray" by (rule eq)
      show "hit_t ?r < INFINITY" using fin by (simp add: eq)
    next
      fix j assume "j < length ?ss"
      then show "\<not> hit_t ((?ss ! j) ray) < hit_t ?r"
        using low by (simp add: eq)
    next
      fix j assume "j < length ?ss" and "hit_t ((?ss ! j) ray) \<noteq> NaN"
      then show "hit_t ?r \<le> hit_t ((?ss ! j) ray)"
        using low fin by (simp add: eq le)
    next
      fix j assume "j < i"
      then show "hit_t ((?ss ! j) ray) \<noteq> hit_t ?r"
        using first by (simp add: eq)
    qed
    with some show ?thesis by blast
  qed
qed

theorem findClosestIntersection_spec_witness:
  "(\<exists>s\<in>set (surfaces example_tracer). hit_t (s ray_down_from_above) < INFINITY)
   \<and> (\<exists>i<length (surfaces example_tracer).
          findClosestIntersection example_hr0 example_tracer ray_down_from_above
            = (surfaces example_tracer ! i) ray_down_from_above
        \<and> (\<forall>j<length (surfaces example_tracer).
              \<not> hit_t ((surfaces example_tracer ! j) ray_down_from_above)
                  < hit_t (findClosestIntersection example_hr0 example_tracer
                             ray_down_from_above))
        \<and> (\<forall>j<i. hit_t ((surfaces example_tracer ! j) ray_down_from_above)
                \<noteq> hit_t (findClosestIntersection example_hr0 example_tracer
                            ray_down_from_above)))
   \<and> hit_t (findClosestIntersection example_hr0 example_tracer ray_down_from_above) = Fin 2
   \<and> material (findClosestIntersection example_hr0 example_tracer ray_down_from_above) = red
   \<and> \<not> (\<exists>s\<in>set (surfaces example_tracer). hit_t (s ray_up) < INFINITY)
   \<and> findClosestIntersection example_hr0 example_tracer ray_up
       = example_hr0\<lparr>hit_t := INFINITY\<rparr>"
proof -
  have hit: "\<exists>s\<in>set (surfaces example_tracer). hit_t (s ray_down_from_above) < INFINITY"
    by (simp add: example_tracer_def example_hits_down_from_above)
  have miss: "\<forall>s\<in>set (surfaces example_tracer). \<not> hit_t (s ray_up) < INFINITY"
    by (simp add: example_tracer_def example_hits_up)
  have t: "hit_t (findClosestIntersection example_hr0 example_tracer ray_down_from_above) = Fin 2"
    by (simp add: example_closest_down_from_above example_hits_down_from_above)
  have m: "material (findClosestIntersection example_hr0 example_tracer ray_down_from_above) = red"
    by (simp add: example_closest_down_from_above example_material_floor)
  from findClosestIntersection_spec [of example_tracer ray_down_from_above example_hr0]
       findClosestIntersection_spec [of example_tracer ray_up example_hr0]
  show ?thesis
    using hit miss t m by blast
qed

section \<open>Illumination\<close>

text \<open>
  C10.  The result of \<open>getLocalIllumination\<close> does not depend on the \<open>enabled\<close> flag:
  for each of the four light structs and every input, two calls that differ only in the
  value of the flag return the same colour, since no implementation reads it.  For the
  base, the positional and the directional light that colour is black, whatever the
  flag.
\<close>

theorem getLocalIllumination_ignores_enabled:
  "getLocalIllumination (set_enabled b1 l) e p nrm mat uv0
     = getLocalIllumination (set_enabled b2 l) e p nrm mat uv0
   \<and> getLocalIllumination (set_enabled b1 l) e p nrm mat uv0
     = getLocalIllumination l e p nrm mat uv0
   \<and> getLocalIllumination (set_enabled b1 (Base bl)) e p nrm mat uv0 = BLACK
   \<and> getLocalIllumination (set_enabled b1 (Positional pl)) e p nrm mat uv0 = BLACK
   \<and> getLocalIllumination (set_enabled b1 (Directional dl)) e p nrm mat uv0 = BLACK"
proof -
  have same: "getLocalIllumination (set_enabled b k) e p nrm mat uv0
                = getLocalIllumination k e p nrm mat uv0" for b k
    by (cases k)
       (simp_all add: LightSource_getLocalIllumination_def
          PositionalLight_getLocalIllumination_def DirectionalLight_getLocalIllumination_def
          SpotLight_getLocalIllumination_def Let_def)
  show ?thesis
    unfolding same
    by (simp add: LightSource_getLocalIllumination_def
        PositionalLight_getLocalIllumination_def DirectionalLight_getLocalIllumination_def)
qed

section \<open>Tracing a ray\<close>










section \<open>The spot light\<close>


lemma below_one_inside: "cutoff < 1 \<Longrightarrow> 1 > cutoff" for cutoff :: double
  by simp






section \<open>Light distance\<close>





section \<open>Hits behind the ray origin\<close>

lemma double_negative_below_INFINITY: "a < 0 \<Longrightarrow> a < INFINITY" for a :: double
  by (cases a) (simp_all add: zero_double_def)

lemma double_min_negative: "\<not> a < b \<Longrightarrow> a < 0 \<Longrightarrow> b < INFINITY \<Longrightarrow> b < 0"
  for a b :: double
  by (cases a; cases b) (simp_all add: zero_double_def)

lemma closest_negative:
  assumes "s \<in> set (surfaces rt)" and "hit_t (s ray) < 0"
  shows "hit_t (findClosestIntersection hr0 rt ray) < 0"
proof -
  obtain k where k: "k < length (surfaces rt)" "surfaces rt ! k = s"
    using assms(1) by (auto simp: in_set_conv_nth)
  have below: "hit_t ((surfaces rt ! k) ray) < INFINITY"
    using assms(2) k by (simp add: double_negative_below_INFINITY)
  from fold_closer_invariant [of ray "surfaces rt" hr0]
  show ?thesis
  proof
    assume "fold (closer ray) (surfaces rt) (hr0\<lparr>hit_t := INFINITY\<rparr>) = hr0\<lparr>hit_t := INFINITY\<rparr>
            \<and> (\<forall>j<length (surfaces rt). \<not> hit_t ((surfaces rt ! j) ray) < INFINITY)"
    with k below show ?thesis by blast
  next
    assume "\<exists>i<length (surfaces rt).
            fold (closer ray) (surfaces rt) (hr0\<lparr>hit_t := INFINITY\<rparr>) = (surfaces rt ! i) ray
          \<and> hit_t ((surfaces rt ! i) ray) < INFINITY
          \<and> (\<forall>j<length (surfaces rt).
                \<not> hit_t ((surfaces rt ! j) ray) < hit_t ((surfaces rt ! i) ray))
          \<and> (\<forall>j<i. hit_t ((surfaces rt ! j) ray) \<noteq> hit_t ((surfaces rt ! i) ray))"
    then obtain i where eq: "findClosestIntersection hr0 rt ray = (surfaces rt ! i) ray"
      and fin: "hit_t ((surfaces rt ! i) ray) < INFINITY"
      and low: "\<forall>j<length (surfaces rt).
                  \<not> hit_t ((surfaces rt ! j) ray) < hit_t ((surfaces rt ! i) ray)"
      unfolding findClosestIntersection_def by blast
    from low k have "\<not> hit_t (s ray) < hit_t ((surfaces rt ! i) ray)" by auto
    from double_min_negative [OF this assms(2) fin] show ?thesis
      by (simp add: eq)
  qed
qed

lemma traceRay_hit:
  "hit_t (findClosestIntersection hr0 rt ray) < INFINITY \<Longrightarrow>
   traceRay getEmisive hr0 rt ray recursionLevel
     = fold (\<lambda>light totalColor.
               totalColor + getLocalIllumination light (- direct ray)
                 (interceptPoint (findClosestIntersection hr0 rt ray))
                 (surfaceNormal (findClosestIntersection hr0 rt ray))
                 (material (findClosestIntersection hr0 rt ray))
                 (uv (findClosestIntersection hr0 rt ray)))
         (lights rt) (getEmisive (material (findClosestIntersection hr0 rt ray)))"
  by (simp add: traceRay_def Let_def)

text \<open>
  C8.  \<open>Plane::findIntersect\<close> puts no lower bound on \<open>t\<close>.  The ray that starts below
  the floor and points down opposes the floor's normal, has its origin on the far side
  of the floor, and is given the hit parameter \<open>-1\<close>.  Whenever some surface reports a
  negative \<open>t\<close>, \<open>findClosestIntersection\<close> returns a record with negative \<open>t\<close>
  (it prefers it to every non-negative one), and \<open>traceRay\<close> shades that record.
\<close>

theorem negative_t_accepted:
  "dot (direct ray_down_from_below) (plane_n example_floor) < 0
   \<and> dot (origin ray_down_from_below - plane_a example_floor) (plane_n example_floor) < 0
   \<and> hit_t (Plane_findIntersect example_hr0 example_floor ray_down_from_below) = Fin (- 1)
   \<and> Fin (- 1) < (0::double)
   \<and> ((\<exists>s\<in>set (surfaces rt). hit_t (s ray) < 0) \<longrightarrow>
        hit_t (findClosestIntersection hr0 rt ray) < 0
      \<and> (\<forall>s\<in>set (surfaces rt). 0 \<le> hit_t (s ray) \<longrightarrow>
            hit_t (findClosestIntersection hr0 rt ray) < hit_t (s ray))
      \<and> traceRay getEmisive hr0 rt ray recursionLevel
          = fold (\<lambda>light totalColor.
                    totalColor + getLocalIllumination light (- direct ray)
                      (interceptPoint (findClosestIntersection hr0 rt ray))
                      (surfaceNormal (findClosestIntersection hr0 rt ray))
                      (material (findClosestIntersection hr0 rt ray))
                      (uv (findClosestIntersection hr0 rt ray)))
              (lights rt) (getEmisive (material (findClosestIntersection hr0 rt ray))))"
proof -
  have concrete:
    "dot (direct ray_down_from_below) (plane_n example_floor) < 0"
    "dot (origin ray_down_from_below - plane_a example_floor) (plane_n example_floor) < 0"
    "Fin (- 1) < (0::double)"
    by (simp_all add: ray_down_from_below_def example_floor_def zero_double_def
        minus_double_def)
  have general: "hit_t (findClosestIntersection hr0 rt ray) < 0
      \<and> (\<forall>s\<in>set (surfaces rt). 0 \<le> hit_t (s ray) \<longrightarrow>
            hit_t (findClosestIntersection hr0 rt ray) < hit_t (s ray))
      \<and> traceRay getEmisive hr0 rt ray recursionLevel
          = fold (\<lambda>light totalColor.
                    totalColor + getLocalIllumination light (- direct ray)
                      (interceptPoint (findClosestIntersection hr0 rt ray))
                      (surfaceNormal (findClosestIntersection hr0 rt ray))
                      (material (findClosestIntersection hr0 rt ray))
                      (uv (findClosestIntersection hr0 rt ray)))
              (lights rt) (getEmisive (material (findClosestIntersection hr0 rt ray)))"
    if "\<exists>s\<in>set (surfaces rt). hit_t (s ray) < 0"
  proof -
    from that obtain s where "s \<in> set (surfaces rt)" "hit_t (s ray) < 0" by blast
    then have neg: "hit_t (findClosestIntersection hr0 rt ray) < 0"
      by (rule closest_negative)
    have below: "a < b" if "a < 0" "0 \<le> b" for a b :: double
      using that by (cases a; cases b) (simp_all add: zero_double_def)
    show ?thesis
      using neg below [OF neg] traceRay_hit [OF double_negative_below_INFINITY [OF neg]]
      by simp
  qed
  show ?thesis
    using concrete general example_hits_down_from_below by simp
qed

theorem negative_t_accepted_witness:
  "(\<exists>s\<in>set (surfaces example_tracer). hit_t (s ray_down_from_below) < 0)
   \<and> hit_t (Plane_findIntersect example_hr0 example_lower ray_down_from_below) = Fin 2
   \<and> findClosestIntersection example_hr0 example_tracer ray_down_from_below
       = Plane_findIntersect example_hr0 example_floor ray_down_from_below
   \<and> hit_t (findClosestIntersection example_hr0 example_tracer ray_down_from_below) < 0
   \<and> hit_t (findClosestIntersection example_hr0 example_tracer ray_down_from_below)
       < hit_t (Plane_findIntersect example_hr0 example_lower ray_down_from_below)
   \<and> traceRay (\<lambda>m. m) example_hr0 (example_tracer\<lparr>lights := []\<rparr>) ray_down_from_below 2 = red"
proof -
  let ?rt = "example_tracer\<lparr>lights := []\<rparr>"
  have same: "findClosestIntersection example_hr0 ?rt ray_down_from_below
                = findClosestIntersection example_hr0 example_tracer ray_down_from_below"
    by (simp add: findClosestIntersection_def)
  have ex: "\<exists>s\<in>set (surfaces example_tracer). hit_t (s ray_down_from_below) < 0"
    by (simp add: example_tracer_def example_hits_down_from_below zero_double_def)
  then have ex': "\<exists>s\<in>set (surfaces ?rt). hit_t (s ray_down_from_below) < 0"
    by simp
  have mem: "Plane_findIntersect example_hr0 example_lower \<in> set (surfaces example_tracer)"
    by (simp add: example_tracer_def)
  have nonneg: "0 \<le> hit_t (Plane_findIntersect example_hr0 example_lower ray_down_from_below)"
    by (simp add: example_hits_down_from_below zero_double_def)
  from negative_t_accepted [of example_tracer ray_down_from_below example_hr0] ex mem nonneg
  have neg: "hit_t (findClosestIntersection example_hr0 example_tracer ray_down_from_below) < 0"
    and lt: "hit_t (findClosestIntersection example_hr0 example_tracer ray_down_from_below)
               < hit_t (Plane_findIntersect example_hr0 example_lower ray_down_from_below)"
    by blast+
  from negative_t_accepted [of ?rt ray_down_from_below example_hr0 "\<lambda>m. m" 2] ex'
  have "traceRay (\<lambda>m. m) example_hr0 ?rt ray_down_from_below 2
          = material (findClosestIntersection example_hr0 ?rt ray_down_from_below)"
    by simp
  then have tr: "traceRay (\<lambda>m. m) example_hr0 ?rt ray_down_from_below 2 = red"
    by (simp add: same example_closest_down_from_below example_material_floor)
  show ?thesis
    using ex neg lt tr example_closest_down_from_below example_hits_down_from_below
    by simp
qed

section \<open>The camera frame\<close>









end
